theory Spec2Isabelle
  imports Main
begin

section \<open>Text of the description\<close>

text \<open>
  A Python \<^verbatim>\<open>str\<close> is a sequence of Unicode code points and \<^verbatim>\<open>len\<close> counts code
  points, so the description is a list of code points. Column names, file names and
  messages are only compared, never measured, and stay \<^typ>\<open>string\<close>.
\<close>

type_synonym ustr = "nat list"

text \<open>The code points for which \<^verbatim>\<open>str.isspace\<close> holds; \<^verbatim>\<open>str.split()\<close> splits at them.\<close>

definition isspace :: "nat \<Rightarrow> bool" where
  "isspace c \<longleftrightarrow>
     (9 \<le> c \<and> c \<le> 13) \<or> (28 \<le> c \<and> c \<le> 32) \<or> c = 133 \<or> c = 160 \<or> c = 5760 \<or>
     (8192 \<le> c \<and> c \<le> 8202) \<or> c = 8232 \<or> c = 8233 \<or> c = 8239 \<or> c = 8287 \<or> c = 12288"

text \<open>The separator \<^verbatim>\<open>" "\<close> that the wrapper appends after every word.\<close>

definition space :: ustr where
  "space = [32]"

text \<open>
  \<^verbatim>\<open>description.split()\<close>: the maximal runs of non-whitespace, in order. The first
  argument is the word being read.
\<close>

fun split_from :: "ustr \<Rightarrow> ustr \<Rightarrow> ustr list" where
  "split_from cur [] = (if cur = [] then [] else [cur])"
| "split_from cur (c # cs) =
     (if isspace c then (if cur = [] then split_from [] cs else cur # split_from [] cs)
      else split_from (cur @ [c]) cs)"

definition split :: "ustr \<Rightarrow> ustr list" where
  "split s = split_from [] s"

text \<open>
  The body of the loop of \<^verbatim>\<open>create_pdf_report\<close> over \<^verbatim>\<open>words\<close>, on the pair of
  \<^verbatim>\<open>lines\<close> and \<^verbatim>\<open>line\<close>:
  \<^verbatim>\<open>
    if len(line + word) + 1 <= 80:
        line += word + " "
    else:
        lines.append(line)
        line = word + " "
  \<close>
\<close>

definition wrap_step :: "ustr \<Rightarrow> ustr list \<times> ustr \<Rightarrow> ustr list \<times> ustr" where
  "wrap_step word st =
     (case st of (lines, line) \<Rightarrow>
        if length (line @ word) + 1 \<le> 80 then (lines, line @ word @ space)
        else (lines @ [line], word @ space))"

text \<open>The loop, started with no lines and the empty line, and the final \<^verbatim>\<open>if line:\<close>.\<close>

definition wrap_words :: "ustr list \<Rightarrow> ustr list" where
  "wrap_words words =
     (case fold wrap_step words ([], []) of (lines, line) \<Rightarrow>
        if line \<noteq> [] then lines @ [line] else lines)"

definition wrap_description :: "ustr \<Rightarrow> ustr list" where
  "wrap_description description = wrap_words (split description)"

text \<open>
  Greedy packing as the specification words it: the words are taken in order; a word
  joins the current line, followed by one separator, while the line with the word and
  the separator stays within the width; otherwise the current line is closed and a new
  line starts with that word.
\<close>

fun greedy_pack :: "nat \<Rightarrow> ustr \<Rightarrow> ustr list \<Rightarrow> ustr list" where
  "greedy_pack width cur [] = (if cur = [] then [] else [cur])"
| "greedy_pack width cur (w # ws) =
     (if length cur + length w + 1 \<le> width then greedy_pack width (cur @ w @ space) ws
      else cur # greedy_pack width (w @ space) ws)"

section \<open>Tables\<close>

text \<open>
  The text of a raised exception, \<^verbatim>\<open>str(e)\<close>. Every library call that can raise
  returns a sum, \<^const>\<open>Inl\<close> carrying the exception.
\<close>

type_synonym exn = string

datatype timestamp = Timestamp (year: int) (month: nat) (day: nat)

text \<open>
  The index of a DataFrame: the default \<^verbatim>\<open>RangeIndex\<close> of a freshly parsed file, or,
  after \<^verbatim>\<open>set_index\<close>, the named column of parsed dates (\<^const>\<open>None\<close> is \<^verbatim>\<open>NaT\<close>).
\<close>

datatype index = RangeIndex | DatetimeIndex string "timestamp option list"

record 'c frame =
  index :: index
  columns :: "(string \<times> 'c list) list"

text \<open>
  A cell of a numeric series: a number, or \<^const>\<open>None\<close> for a missing value (\<^verbatim>\<open>NaN\<close>).
  Numbers are whole numbers, and their sums are exact. pandas holds such a column as
  int64, or as float64 when a value is missing, and sums it in that type: its sum is the
  exact one as long as the absolute values of the column add up to at most \<open>2 ^ 53\<close>;
  beyond that it wraps around (int64) or is rounded (float64), which is not modelled.
\<close>

type_synonym cell = "int option"

definition column_names :: "'c frame \<Rightarrow> string list" where
  "column_names df = map fst (columns df)"

text \<open>\<^verbatim>\<open>df.head()\<close>: the first five rows.\<close>

definition head :: "'c frame \<Rightarrow> 'c frame" where
  "head df = df\<lparr>columns := map (\<lambda>(n, cs). (n, take 5 cs)) (columns df)\<rparr>"

section \<open>The user interface and the libraries\<close>

text \<open>
  The upload as the script receives it: its name, the MIME type the browser reported, and
  its whole content, which the upload widget holds in memory.
\<close>

record uploaded_file =
  file_name :: string
  file_type :: string
  file_bytes :: "nat list"

datatype chart_type = TimeSeries | BoxPlot | CorrelationHeatmap | AnnualSales

text \<open>What a canvas of the PDF library and a document of the word library hold.\<close>

datatype draw_op =
  SetFont string nat
| DrawString nat nat string
| DrawText nat nat string nat "ustr list"
| DrawImage "nat list" nat nat nat nat

datatype docx_block =
  Heading string nat
| Paragraph ustr
| Picture "nat list" nat

datatype buffer = PdfBuffer "draw_op list" | DocxBuffer "docx_block list"

text \<open>The anchor that \<^verbatim>\<open>get_download_link\<close> builds: payload, file name and link text.\<close>

datatype html = Anchor buffer string string

datatype callee =
  Read_csv | Read_excel
| Create_time_series_plot | Create_boxplot | Create_heatmap | Create_annual_sales
| Create_pdf_report | Create_word_report

text \<open>
  What one run of the script does that can be observed: the elements it puts on the
  page, in order, and the calls of the parsers, renderers and report functions.
  \<^verbatim>\<open>St_markdown\<close> is \<^verbatim>\<open>st.markdown(link, unsafe_allow_html=True)\<close> on a download link,
  \<^verbatim>\<open>St_markdown_text\<close> is \<^verbatim>\<open>st.markdown\<close> on plain Markdown text.
\<close>

datatype ('c, 'fig) event =
  St_info string
| St_subheader string
| St_header string
| St_dataframe "'c frame"
| St_warning string
| St_error string
| St_pyplot 'fig
| St_markdown html
| Call callee
| St_title string
| St_markdown_text string

text \<open>
  The state a run works on: the trace of events, the temporary files on disk with their
  contents, and the name the next temporary file gets.
\<close>

record ('c, 'fig) world =
  trace :: "('c, 'fig) event list"
  files :: "nat \<rightharpoonup> nat list"
  next_tmp :: nat

definition emit :: "('c, 'fig) event \<Rightarrow> ('c, 'fig) world \<Rightarrow> ('c, 'fig) world" where
  "emit ev w = w\<lparr>trace := trace w @ [ev]\<rparr>"

text \<open>
  The library functions, taken as parameters: the two parsers of pandas, its date parser,
  the plotting done by matplotlib and seaborn, the rasteriser \<^verbatim>\<open>fig.savefig\<close>, and the
  steps of the document libraries that take the description (\<^verbatim>\<open>doc.add_paragraph\<close>
  refuses text that XML cannot hold), read the image or write the document. Each may
  raise.
\<close>

record ('c, 'fig) env =
  read_csv :: "uploaded_file \<Rightarrow> exn + 'c frame"
  read_excel :: "uploaded_file \<Rightarrow> exn + 'c frame"
  to_datetime :: "'c list \<Rightarrow> exn + timestamp option list"
  create_time_series_plot :: "'c frame \<Rightarrow> string list \<Rightarrow> exn + 'fig"
  create_boxplot :: "'c frame \<Rightarrow> string list \<Rightarrow> exn + 'fig"
  create_heatmap :: "'c frame \<Rightarrow> string list \<Rightarrow> exn + 'fig"
  plot_bar :: "(int \<times> (string \<times> int) list) list \<Rightarrow> exn + 'fig"
  savefig :: "'fig \<Rightarrow> exn + nat list"
  drawImage :: "nat list \<Rightarrow> exn option"
  canvas_save :: "draw_op list \<Rightarrow> exn option"
  add_paragraph :: "ustr \<Rightarrow> exn option"
  add_picture :: "nat list \<Rightarrow> exn option"
  doc_save :: "docx_block list \<Rightarrow> exn option"

record ui_input =
  uploaded :: "uploaded_file option"
  multiselect :: "string list option"
  selectbox :: chart_type
  graph_title :: ustr
  graph_description :: ustr
  button :: bool

section \<open>Loading the table\<close>

text \<open>\<^verbatim>\<open>uploaded_file.name.endswith('.csv')\<close>\<close>

definition endswith :: "string \<Rightarrow> string \<Rightarrow> bool" where
  "endswith s suffix \<longleftrightarrow>
     length suffix \<le> length s \<and> drop (length s - length suffix) s = suffix"

text \<open>
  \<^verbatim>\<open>
    if uploaded_file.name.endswith('.csv'):
        df = pd.read_csv(uploaded_file)
    else:  # Excel file
        df = pd.read_excel(uploaded_file)
  \<close>
\<close>

definition read_uploaded_file ::
  "('c, 'fig) env \<Rightarrow> uploaded_file \<Rightarrow> ('c, 'fig) world \<Rightarrow> (exn + 'c frame) \<times> ('c, 'fig) world"
where
  "read_uploaded_file env f w =
     (if endswith (file_name f) ''.csv'' then (read_csv env f, emit (Call Read_csv) w)
      else (read_excel env f, emit (Call Read_excel) w))"

text \<open>
  \<^verbatim>\<open>
    df[date_column] = pd.to_datetime(df[date_column])
    df.set_index(date_column, inplace=True)
  \<close>
  The column leaves the columns and becomes the index.
\<close>

definition set_datetime_index ::
  "('c, 'fig) env \<Rightarrow> string \<Rightarrow> 'c frame \<Rightarrow> exn + 'c frame"
where
  "set_datetime_index env date_column df =
     (case map_of (columns df) date_column of
        None \<Rightarrow> Inl date_column
      | Some cells \<Rightarrow>
          (case to_datetime env cells of
             Inl e \<Rightarrow> Inl e
           | Inr dates \<Rightarrow>
               Inr \<lparr>index = DatetimeIndex date_column dates,
                    columns = filter (\<lambda>p. fst p \<noteq> date_column) (columns df)\<rparr>))"

text \<open>
  The resolution of the date column: \<^verbatim>\<open>datum\<close>, else \<^verbatim>\<open>date\<close>, else, after a
  warning, \<^verbatim>\<open>df.columns[0]\<close>, which raises IndexError on a frame with no column.
  The result is the table and \<^verbatim>\<open>drug_categories\<close>.
\<close>

definition resolve_date_index ::
  "('c, 'fig) env \<Rightarrow> 'c frame \<Rightarrow> ('c, 'fig) world \<Rightarrow>
     (exn + 'c frame \<times> string list) \<times> ('c, 'fig) world"
where
  "resolve_date_index env df w =
     (let date_column =
            (if ''datum'' \<in> set (column_names df) then Some ''datum''
             else if ''date'' \<in> set (column_names df) then Some ''date''
             else None)
      in case date_column of
           Some dc \<Rightarrow>
             (case set_datetime_index env dc df of
                Inl e \<Rightarrow> (Inl e, w)
              | Inr df' \<Rightarrow> (Inr (df', column_names df'), w))
         | None \<Rightarrow>
             (let w' = emit (St_warning
                    ''No explicit date column found. Assuming first column is for dates.'') w
              in case column_names df of
                   [] \<Rightarrow> (Inl ''index 0 is out of bounds for axis 0 with size 0'', w')
                 | dc # _ \<Rightarrow>
                     (case set_datetime_index env dc df of
                        Inl e \<Rightarrow> (Inl e, w')
                      | Inr df' \<Rightarrow> (Inr (df', column_names df'), w'))))"

text \<open>Lines 183 to 215 of the script: parse, preview, resolve the date column.\<close>

definition load_table ::
  "('c, 'fig) env \<Rightarrow> uploaded_file \<Rightarrow> ('c, 'fig) world \<Rightarrow>
     (exn + 'c frame \<times> string list) \<times> ('c, 'fig) world"
where
  "load_table env f w =
     (case read_uploaded_file env f w of
        (Inl e, w1) \<Rightarrow> (Inl e, w1)
      | (Inr df, w1) \<Rightarrow>
          resolve_date_index env df
            (emit (St_dataframe (head df)) (emit (St_subheader ''Data Preview'') w1)))"

section \<open>The annual sales chart\<close>

text \<open>\<^verbatim>\<open>df_yearly['Year'] = ...\<close>: a column of that name is replaced, else the column is added last.\<close>

fun set_column :: "string \<Rightarrow> 'c list \<Rightarrow> (string \<times> 'c list) list \<Rightarrow> (string \<times> 'c list) list" where
  "set_column k v [] = [(k, v)]"
| "set_column k v (p # ps) = (if fst p = k then (k, v) # ps else p # set_column k v ps)"

text \<open>
  \<^verbatim>\<open>groupby(...).sum()\<close> on one column, row by row: a row whose key is missing is
  dropped; the group of its key is created at zero when the row is the first of its key;
  a missing value adds nothing.
\<close>

fun group_sum :: "int option list \<Rightarrow> cell list \<Rightarrow> (int \<rightharpoonup> int) \<Rightarrow> (int \<rightharpoonup> int)" where
  "group_sum (k # ks) (v # vs) acc =
     group_sum ks vs
       (case k of
          None \<Rightarrow> acc
        | Some y \<Rightarrow>
            acc(y \<mapsto> (case acc y of None \<Rightarrow> 0 | Some s \<Rightarrow> s) + (case v of None \<Rightarrow> 0 | Some x \<Rightarrow> x)))"
| "group_sum _ _ acc = acc"

text \<open>The keys of the groups, sorted: the years of the index, each once.\<close>

definition group_keys :: "int option list \<Rightarrow> int list" where
  "group_keys ks = sort (remdups (concat (map (\<lambda>k. case k of None \<Rightarrow> [] | Some y \<Rightarrow> [y]) ks)))"

text \<open>
  \<^verbatim>\<open>
    df_yearly = df.copy()
    df_yearly['Year'] = df_yearly.index.year
    yearly_sales = df_yearly.groupby('Year')[selected_drugs].sum()
  \<close>
  The result has one row per year, and in it one sum per selected column, in the order
  of the selection. Grouping by a name that is the index's name and a column's is
  refused by pandas as ambiguous; selecting a column that does not exist is a KeyError.
\<close>

definition yearly_sales :: "cell frame \<Rightarrow> string list \<Rightarrow> exn + (int \<times> (string \<times> int) list) list" where
  "yearly_sales df selected_drugs =
     (case index df of
        RangeIndex \<Rightarrow> Inl ''RangeIndex object has no attribute year''
      | DatetimeIndex index_name dates \<Rightarrow>
          (let years = map (map_option year) dates;
               df_yearly = set_column ''Year'' years (columns df)
           in if index_name = ''Year'' then
                Inl ''Year is both an index level and a column label, which is ambiguous.''
              else if \<not> set selected_drugs \<subseteq> set (map fst df_yearly) then
                Inl ''Columns not found''
              else
                Inr (map (\<lambda>y. (y, map (\<lambda>drug.
                           (drug,
                            case map_of df_yearly drug of
                              None \<Rightarrow> 0
                            | Some values \<Rightarrow>
                                (case group_sum years values Map.empty y of
                                   None \<Rightarrow> 0
                                 | Some s \<Rightarrow> s)))
                         selected_drugs))
                      (group_keys years))))"

text \<open>\<^verbatim>\<open>create_annual_sales\<close>: the yearly sums, then the bar chart of them.\<close>

definition create_annual_sales :: "(cell, 'fig) env \<Rightarrow> cell frame \<Rightarrow> string list \<Rightarrow> exn + 'fig" where
  "create_annual_sales env df selected_drugs =
     (case yearly_sales df selected_drugs of
        Inl e \<Rightarrow> Inl e
      | Inr sums \<Rightarrow> plot_bar env sums)"

text \<open>The sum of a column over the rows of one year, as the specification states it.\<close>

definition sum_of_year :: "int \<Rightarrow> timestamp option list \<Rightarrow> cell list \<Rightarrow> int" where
  "sum_of_year y dates values =
     sum_list (map (\<lambda>(d, v). case v of None \<Rightarrow> 0 | Some x \<Rightarrow> x)
       (filter (\<lambda>(d, v). map_option year d = Some y) (zip dates values)))"

section \<open>The reports\<close>

text \<open>
  \<^verbatim>\<open>create_pdf_report\<close>. The page is the US letter page, 612 by 792 points. The
  temporary file is created by \<^verbatim>\<open>NamedTemporaryFile(delete=False)\<close>, written by
  \<^verbatim>\<open>fig.savefig\<close>, read by \<^verbatim>\<open>c.drawImage\<close> and removed by \<^verbatim>\<open>os.unlink\<close>, which is
  the statement after \<^verbatim>\<open>c.save()\<close>.
\<close>

definition create_pdf_report ::
  "('c, 'fig) env \<Rightarrow> 'fig \<Rightarrow> ustr \<Rightarrow> ('c, 'fig) world \<Rightarrow> (exn + buffer) \<times> ('c, 'fig) world"
where
  "create_pdf_report env fig description w =
     (let c0 = [SetFont ''Helvetica-Bold'' 16,
                DrawString 72 720 ''Drug Sales Data Visualization Report'',
                SetFont ''Helvetica'' 12,
                DrawString 72 692 ''Description:''];
          c1 = c0 @ [DrawText 72 672 ''Helvetica'' 10 (wrap_description description)];
          temp_filename = next_tmp w;
          w1 = w\<lparr>files := (files w)(temp_filename \<mapsto> []), next_tmp := Suc (next_tmp w)\<rparr>
      in case savefig env fig of
           Inl e \<Rightarrow> (Inl e, w1)
         | Inr png \<Rightarrow>
             (let w2 = w1\<lparr>files := (files w1)(temp_filename \<mapsto> png)\<rparr>
              in case drawImage env png of
                   Some e \<Rightarrow> (Inl e, w2)
                 | None \<Rightarrow>
                     (let c2 = c1 @ [DrawImage png 72 100 468 492]
                      in case canvas_save env c2 of
                           Some e \<Rightarrow> (Inl e, w2)
                         | None \<Rightarrow>
                             (Inr (PdfBuffer c2),
                              w2\<lparr>files := (files w2)(temp_filename := None)\<rparr>))))"

text \<open>
  \<^verbatim>\<open>create_word_report\<close>. \<^verbatim>\<open>doc.add_paragraph(description)\<close> runs, and may raise,
  before the temporary file exists; \<^verbatim>\<open>os.unlink\<close> is the statement after
  \<^verbatim>\<open>doc.save(buffer)\<close>.
\<close>

definition create_word_report ::
  "('c, 'fig) env \<Rightarrow> 'fig \<Rightarrow> ustr \<Rightarrow> ('c, 'fig) world \<Rightarrow> (exn + buffer) \<times> ('c, 'fig) world"
where
  "create_word_report env fig description w =
     (let doc0 = [Heading ''Drug Sales Data Visualization Report'' 0,
                  Heading ''Description:'' 1]
      in case add_paragraph env description of
           Some e \<Rightarrow> (Inl e, w)
         | None \<Rightarrow>
             (let doc1 = doc0 @ [Paragraph description];
                  temp_filename = next_tmp w;
                  w1 = w\<lparr>files := (files w)(temp_filename \<mapsto> []),
                         next_tmp := Suc (next_tmp w)\<rparr>
              in case savefig env fig of
                   Inl e \<Rightarrow> (Inl e, w1)
                 | Inr png \<Rightarrow>
                     (let w2 = w1\<lparr>files := (files w1)(temp_filename \<mapsto> png)\<rparr>;
                          doc2 = doc1 @ [Heading ''Visualization:'' 1]
                      in case add_picture env png of
                           Some e \<Rightarrow> (Inl e, w2)
                         | None \<Rightarrow>
                             (let doc3 = doc2 @ [Picture png 6]
                              in case doc_save env doc3 of
                                   Some e \<Rightarrow> (Inl e, w2)
                                 | None \<Rightarrow>
                                     (Inr (DocxBuffer doc3),
                                      w2\<lparr>files := (files w2)(temp_filename := None)\<rparr>)))))"

definition get_download_link :: "buffer \<Rightarrow> string \<Rightarrow> string \<Rightarrow> html" where
  "get_download_link buffer download_filename link_text = Anchor buffer download_filename link_text"

section \<open>The script\<close>

text \<open>The chain of \<^verbatim>\<open>if chart_type == ...\<close> of the button handler.\<close>

definition render ::
  "(cell, 'fig) env \<Rightarrow> chart_type \<Rightarrow> cell frame \<Rightarrow> string list \<Rightarrow> (cell, 'fig) world \<Rightarrow>
     (exn + 'fig) \<times> (cell, 'fig) world"
where
  "render env chart df selected_drugs w =
     (case chart of
        TimeSeries \<Rightarrow>
          (create_time_series_plot env df selected_drugs, emit (Call Create_time_series_plot) w)
      | BoxPlot \<Rightarrow> (create_boxplot env df selected_drugs, emit (Call Create_boxplot) w)
      | CorrelationHeatmap \<Rightarrow> (create_heatmap env df selected_drugs, emit (Call Create_heatmap) w)
      | AnnualSales \<Rightarrow>
          (create_annual_sales env df selected_drugs, emit (Call Create_annual_sales) w))"

text \<open>The body of \<^verbatim>\<open>if st.button("Generate Visualization"):\<close>, lines 245 to 279.\<close>

definition generate ::
  "(cell, 'fig) env \<Rightarrow> ui_input \<Rightarrow> cell frame \<Rightarrow> string list \<Rightarrow> (cell, 'fig) world \<Rightarrow>
     (exn + unit) \<times> (cell, 'fig) world"
where
  "generate env inp df selected_drugs w =
     (if selected_drugs = [] then
        (Inr (), emit (St_error ''Please select at least one drug category.'') w)
      else
        (case render env (selectbox inp) df selected_drugs
                (emit (St_subheader ''3. Generated Visualization'') w) of
           (Inl e, w1) \<Rightarrow> (Inl e, w1)
         | (Inr fig, w1) \<Rightarrow>
             (case create_pdf_report env fig (graph_description inp)
                     (emit (Call Create_pdf_report)
                        (emit (St_header ''4. Download Report'') (emit (St_pyplot fig) w1))) of
                (Inl e, w2) \<Rightarrow> (Inl e, w2)
              | (Inr pdf_buffer, w2) \<Rightarrow>
                  (case create_word_report env fig (graph_description inp)
                          (emit (Call Create_word_report) w2) of
                     (Inl e, w3) \<Rightarrow> (Inl e, w3)
                   | (Inr docx_buffer, w3) \<Rightarrow>
                       (Inr (),
                        emit (St_markdown (get_download_link docx_buffer
                                ''drug_sales_report.docx'' ''Download Word Report''))
                          (emit (St_markdown (get_download_link pdf_buffer
                                   ''drug_sales_report.pdf'' ''Download PDF Report'')) w3))))))"

text \<open>
  The value of the multiselect: the user's choice, or, while the widget is untouched,
  its default, \<^verbatim>\<open>drug_categories[:3] if len(drug_categories) >= 3 else drug_categories\<close>.
\<close>

definition selected_drugs_of :: "ui_input \<Rightarrow> string list \<Rightarrow> string list" where
  "selected_drugs_of inp drug_categories =
     (case multiselect inp of
        Some chosen \<Rightarrow> chosen
      | None \<Rightarrow> if length drug_categories \<ge> 3 then take 3 drug_categories else drug_categories)"

text \<open>The body of the \<^verbatim>\<open>try\<close>, lines 183 to 279.\<close>

definition try_body ::
  "(cell, 'fig) env \<Rightarrow> ui_input \<Rightarrow> uploaded_file \<Rightarrow> (cell, 'fig) world \<Rightarrow>
     (exn + unit) \<times> (cell, 'fig) world"
where
  "try_body env inp f w =
     (case load_table env f w of
        (Inl e, w1) \<Rightarrow> (Inl e, w1)
      | (Inr (df, drug_categories), w1) \<Rightarrow>
          (let w2 = emit (St_header ''2. Create Visualization'') w1
           in if button inp then generate env inp df (selected_drugs_of inp drug_categories) w2
              else (Inr (), w2)))"

text \<open>
  Lines 181 to 284: the \<^verbatim>\<open>try\<close> with its single handler
  \<^verbatim>\<open>except Exception as e: st.error(f"Error processing file: {e}")\<close>, and the branch
  for no upload.
\<close>

definition process_uploaded_file ::
  "(cell, 'fig) env \<Rightarrow> ui_input \<Rightarrow> (cell, 'fig) world \<Rightarrow> (cell, 'fig) world"
where
  "process_uploaded_file env inp w =
     (case uploaded inp of
        None \<Rightarrow> emit (St_info ''Please upload a file to begin analysis.'') w
      | Some f \<Rightarrow>
          (case try_body env inp f w of
             (Inl e, w1) \<Rightarrow> emit (St_error (''Error processing file: '' @ e)) w1
           | (Inr u, w1) \<Rightarrow> w1))"

text \<open>
  The page around it. Lines 22 to 26 print the title, the invitation and the header of
  the upload section before the upload is looked at; lines 287 to 295, after the
  \<^verbatim>\<open>try\<close> and outside it, print the footer: a rule, a heading and the instructions.
  Every run prints both.
\<close>

definition page_top :: "('c, 'fig) event list" where
  "page_top =
     [St_title ''Drug Sales Data Visualization Tool'',
      St_markdown_text
        ''Upload your drug sales data file (CSV or Excel) to generate visualizations and reports.'',
      St_header ''1. Upload Data'']"

definition instructions :: string where
  "instructions =
     CHR 0x0A # concat (map (\<lambda>l. l @ [CHR 0x0A])
       [''1. Upload your drug sales data file in CSV or Excel format'',
        ''2. Select the drug categories you want to visualize'',
        ''3. Choose a chart type and add a title and description'',
        ''4. Generate the visualization'',
        ''5. Download the report in PDF or Word format''])"

definition page_footer :: "('c, 'fig) event list" where
  "page_footer =
     [St_markdown_text ''---'', St_markdown_text ''### Instructions'',
      St_markdown_text instructions]"

definition emit_all :: "('c, 'fig) event list \<Rightarrow> ('c, 'fig) world \<Rightarrow> ('c, 'fig) world" where
  "emit_all evs w = w\<lparr>trace := trace w @ evs\<rparr>"

text \<open>One run of the whole script, on one interaction.\<close>

definition main_script ::
  "(cell, 'fig) env \<Rightarrow> ui_input \<Rightarrow> (cell, 'fig) world \<Rightarrow> (cell, 'fig) world"
where
  "main_script env inp w =
     emit_all page_footer (process_uploaded_file env inp (emit_all page_top w))"

text \<open>
  An exception with text \<^verbatim>\<open>e\<close> is raised while the uploaded file is processed: by the
  parser of the file; by the resolution of the date column or the date parser; by the
  renderer of the chosen chart, reached when the button is pressed on a selection that is
  not empty; by \<^verbatim>\<open>create_pdf_report\<close>; or by \<^verbatim>\<open>create_word_report\<close>. Each step is
  reached when the steps before it returned. What a step returns or raises does not
  depend on the trace and the disk, so any state stands for the one it runs in.
\<close>

inductive raises :: "(cell, 'fig) env \<Rightarrow> ui_input \<Rightarrow> uploaded_file \<Rightarrow> exn \<Rightarrow> bool"
  for env :: "(cell, 'fig) env" and inp :: ui_input and f :: uploaded_file
where
  loading:
    "fst (read_uploaded_file env f w) = Inl e \<Longrightarrow> raises env inp f e"
| parsing:
    "fst (read_uploaded_file env f w) = Inr df0 \<Longrightarrow>
     fst (resolve_date_index env df0 wa) = Inl e \<Longrightarrow> raises env inp f e"
| rendering:
    "fst (load_table env f w) = Inr (df, drug_categories) \<Longrightarrow>
     button inp \<Longrightarrow>
     selected_drugs_of inp drug_categories \<noteq> [] \<Longrightarrow>
     fst (render env (selectbox inp) df (selected_drugs_of inp drug_categories) wa) = Inl e \<Longrightarrow>
     raises env inp f e"
| pdf_report:
    "fst (load_table env f w) = Inr (df, drug_categories) \<Longrightarrow>
     button inp \<Longrightarrow>
     selected_drugs_of inp drug_categories \<noteq> [] \<Longrightarrow>
     fst (render env (selectbox inp) df (selected_drugs_of inp drug_categories) wa) = Inr fig \<Longrightarrow>
     fst (create_pdf_report env fig (graph_description inp) wb) = Inl e \<Longrightarrow>
     raises env inp f e"
| word_report:
    "fst (load_table env f w) = Inr (df, drug_categories) \<Longrightarrow>
     button inp \<Longrightarrow>
     selected_drugs_of inp drug_categories \<noteq> [] \<Longrightarrow>
     fst (render env (selectbox inp) df (selected_drugs_of inp drug_categories) wa) = Inr fig \<Longrightarrow>
     fst (create_pdf_report env fig (graph_description inp) wb) = Inr pdf_buffer \<Longrightarrow>
     fst (create_word_report env fig (graph_description inp) wc) = Inl e \<Longrightarrow>
     raises env inp f e"

section \<open>Which events are what\<close>

fun is_link :: "('c, 'fig) event \<Rightarrow> bool" where
  "is_link (St_markdown a) = True"
| "is_link ev = False"

fun is_render_or_report_call :: "('c, 'fig) event \<Rightarrow> bool" where
  "is_render_or_report_call (Call c) = (c \<noteq> Read_csv \<and> c \<noteq> Read_excel)"
| "is_render_or_report_call ev = False"

fun is_validation_error :: "('c, 'fig) event \<Rightarrow> bool" where
  "is_validation_error (St_error msg) = (msg = ''Please select at least one drug category.'')"
| "is_validation_error ev = False"

text \<open>An event of loading: no link, no call of a renderer or a report, no validation error.\<close>

definition is_loading :: "('c, 'fig) event \<Rightarrow> bool" where
  "is_loading ev \<longleftrightarrow> \<not> is_link ev \<and> \<not> is_render_or_report_call ev \<and> \<not> is_validation_error ev"

text \<open>The functions called, in the order of their calls.\<close>

fun calls_of :: "('c, 'fig) event list \<Rightarrow> callee list" where
  "calls_of [] = []"
| "calls_of (Call c # evs) = c # calls_of evs"
| "calls_of (ev # evs) = calls_of evs"

section \<open>Example data\<close>

text \<open>
  A parsed file with a date column, a column named \<^verbatim>\<open>Year\<close> and one drug column; a
  library in which every call succeeds (the CSV parser returns that file, the Excel parser
  refuses its input); a library in which embedding the image fails; the table that loading
  the file gives; an empty disk; and the input of a user who uploaded \<^verbatim>\<open>sales.csv\<close>,
  chose one column and the time series, and pressed the button.
\<close>

definition example_frame :: "cell frame" where
  "example_frame =
     \<lparr>index = RangeIndex,
      columns = [(''date'', [Some 20200115, Some 20210115]),
                 (''Year'', [Some 5, Some 6]),
                 (''DrugA'', [Some 10, Some 20])]\<rparr>"

definition example_lib :: "(cell, nat) env" where
  "example_lib =
     \<lparr>read_csv = (\<lambda>f. Inr example_frame),
      read_excel = (\<lambda>f. Inl ''File is not a zip file''),
      to_datetime = (\<lambda>cells. Inr (map (map_option (\<lambda>n.
          Timestamp (n div 10000) (nat (n div 100 mod 100)) (nat (n mod 100)))) cells)),
      create_time_series_plot = (\<lambda>df sel. Inr 1),
      create_boxplot = (\<lambda>df sel. Inr 2),
      create_heatmap = (\<lambda>df sel. Inr 3),
      plot_bar = (\<lambda>sums. Inr 4),
      savefig = (\<lambda>fig. Inr [137, 80, 78, 71, fig]),
      drawImage = (\<lambda>png. None),
      canvas_save = (\<lambda>c. None),
      add_paragraph = (\<lambda>text. None),
      add_picture = (\<lambda>png. None),
      doc_save = (\<lambda>doc. None)\<rparr>"

definition example_world :: "(cell, nat) world" where
  "example_world = \<lparr>trace = [], files = Map.empty, next_tmp = 0\<rparr>"

definition example_input :: ui_input where
  "example_input =
     \<lparr>uploaded = Some \<lparr>file_name = ''sales.csv'', file_type = ''text/csv'', file_bytes = []\<rparr>,
      multiselect = Some [''DrugA''],
      selectbox = TimeSeries,
      graph_title = [],
      graph_description = [],
      button = True\<rparr>"

definition failing_lib :: "(cell, nat) env" where
  "failing_lib =
     example_lib\<lparr>drawImage := (\<lambda>png. Some ''cannot identify image file''),
                 add_picture := (\<lambda>png. Some ''cannot identify image file'')\<rparr>"

definition example_table :: "cell frame" where
  "example_table =
     \<lparr>index = DatetimeIndex ''date'' [Some (Timestamp 2020 1 15), Some (Timestamp 2021 1 15)],
      columns = [(''Year'', [Some 5, Some 6]), (''DrugA'', [Some 10, Some 20])]\<rparr>"

section \<open>The word wrapper of the PDF report\<close>

lemma fold_wrap_step_greedy:
  "(case fold wrap_step ws (lines, line) of (ls, l) \<Rightarrow> if l \<noteq> [] then ls @ [l] else ls)
     = lines @ greedy_pack 80 line ws"
  by (induction ws arbitrary: lines line) (auto simp: wrap_step_def)

lemma wrap_words_greedy: "wrap_words ws = greedy_pack 80 [] ws"
  using fold_wrap_step_greedy [of ws "[]" "[]"] by (simp add: wrap_words_def)

lemma concat_greedy_pack:
  "concat (greedy_pack n cur ws) = cur @ concat (map (\<lambda>w. w @ space) ws)"
  by (induction ws arbitrary: cur) auto

lemma split_from_word:
  "\<forall>c \<in> set w. \<not> isspace c \<Longrightarrow> split_from cur (w @ s) = split_from (cur @ w) s"
  by (induction w arbitrary: cur) auto

lemma split_from_words:
  "\<forall>c \<in> set cur. \<not> isspace c \<Longrightarrow> w \<in> set (split_from cur s) \<Longrightarrow>
   w \<noteq> [] \<and> (\<forall>c \<in> set w. \<not> isspace c)"
proof (induction s arbitrary: cur)
  case Nil
  then show ?case by (cases "cur = []") simp_all
next
  case (Cons c cs)
  have empty: "\<forall>c \<in> set ([]::ustr). \<not> isspace c" by simp
  show ?case
  proof (cases "isspace c")
    case space: True
    show ?thesis
    proof (cases "cur = []")
      case True
      with space Cons.prems(2) have "w \<in> set (split_from [] cs)" by simp
      then show ?thesis by (rule Cons.IH [OF empty])
    next
      case False
      with space Cons.prems(2) have "w = cur \<or> w \<in> set (split_from [] cs)" by simp
      then show ?thesis
      proof
        assume "w = cur"
        with False Cons.prems(1) show ?thesis by simp
      next
        assume "w \<in> set (split_from [] cs)"
        then show ?thesis by (rule Cons.IH [OF empty])
      qed
    qed
  next
    case False
    with Cons.prems(2) have w: "w \<in> set (split_from (cur @ [c]) cs)" by simp
    from False Cons.prems(1) have "\<forall>a \<in> set (cur @ [c]). \<not> isspace a" by simp
    then show ?thesis using w by (rule Cons.IH)
  qed
qed

lemma isspace_32: "isspace 32"
  by (simp add: isspace_def)

lemma split_from_join:
  "\<forall>w \<in> set ws. w \<noteq> [] \<and> (\<forall>c \<in> set w. \<not> isspace c) \<Longrightarrow>
   split_from [] (concat (map (\<lambda>w. w @ space) ws)) = ws"
  by (induction ws) (auto simp: split_from_word space_def isspace_32)

lemma greedy_pack_bound:
  "set ws \<subseteq> W \<Longrightarrow> length cur \<le> 80 \<or> (\<exists>w \<in> W. 79 < length w \<and> cur = w @ space) \<Longrightarrow>
   l \<in> set (greedy_pack 80 cur ws) \<Longrightarrow> length l \<le> 80 \<or> (\<exists>w \<in> W. 79 < length w \<and> l = w @ space)"
proof (induction ws arbitrary: cur)
  case Nil
  then show ?case by (auto split: if_splits)
next
  case (Cons x xs)
  have sub: "set xs \<subseteq> W" and xW: "x \<in> W"
    using Cons.prems(1) by simp_all
  show ?case
  proof (cases "length cur + length x + 1 \<le> 80")
    case True
    with Cons.prems(3) have l: "l \<in> set (greedy_pack 80 (cur @ x @ space) xs)" by simp
    from True have "length (cur @ x @ space) \<le> 80" by (simp add: space_def)
    then show ?thesis by (rule Cons.IH [OF sub disjI1 l])
  next
    case False
    with Cons.prems(3) have "l = cur \<or> l \<in> set (greedy_pack 80 (x @ space) xs)" by auto
    then show ?thesis
    proof
      assume "l = cur" with Cons.prems(2) show ?thesis by simp
    next
      assume l: "l \<in> set (greedy_pack 80 (x @ space) xs)"
      have "length (x @ space) \<le> 80 \<or> (\<exists>w \<in> W. 79 < length w \<and> x @ space = w @ space)"
      proof (cases "length x \<le> 79")
        case True
        then show ?thesis by (simp add: space_def)
      next
        case False
        then have "79 < length x" by simp
        with xW show ?thesis by blast
      qed
      then show ?thesis by (rule Cons.IH [OF sub _ l])
    qed
  qed
qed

lemma greedy_pack_keeps_long:
  "80 \<le> length cur \<Longrightarrow> cur \<in> set (greedy_pack 80 cur ws)"
  by (cases ws) auto

lemma greedy_pack_long_word:
  "w \<in> set ws \<Longrightarrow> 79 < length w \<Longrightarrow> w @ space \<in> set (greedy_pack 80 cur ws)"
proof (induction ws arbitrary: cur)
  case Nil
  then show ?case by simp
next
  case (Cons x xs)
  show ?case
  proof (cases "w = x")
    case True
    with Cons.prems have "greedy_pack 80 cur (x # xs) = cur # greedy_pack 80 (x @ space) xs"
      by simp
    moreover have "x @ space \<in> set (greedy_pack 80 (x @ space) xs)"
      using True Cons.prems by (intro greedy_pack_keeps_long) (simp add: space_def)
    ultimately show ?thesis using True by simp
  next
    case False
    with Cons.prems have "w \<in> set xs" by simp
    then show ?thesis using Cons.IH Cons.prems(2) by auto
  qed
qed

text \<open>
  Claim C5: the description of the PDF report is wrapped by greedy packing of its
  whitespace-separated words at a width of 80 characters: the lines that the loop of
  \<^verbatim>\<open>create_pdf_report\<close> produces are those of \<^const>\<open>greedy_pack\<close> at width 80,
  started with the empty line, on the words of the description in their order.
\<close>

theorem wrap_description_greedy:
  "wrap_description description = greedy_pack 80 [] (split description)"
  unfolding wrap_description_def by (rule wrap_words_greedy)

text \<open>
  Claim C10: the wrapper keeps the word sequence (splitting the concatenated lines at
  whitespace gives the words of the description again); every line has at most 80
  characters, its trailing space included, unless it is a single word of more than 79
  characters followed by the space; and every such long word is a line of its own,
  unsplit.
\<close>

theorem wrap_description_words_and_width:
  "split (concat (wrap_description description)) = split description \<and>
   (\<forall>l \<in> set (wrap_description description).
      length l \<le> 80 \<or> (\<exists>w \<in> set (split description). 79 < length w \<and> l = w @ space)) \<and>
   (\<forall>w \<in> set (split description).
      79 < length w \<longrightarrow> w @ space \<in> set (wrap_description description))"
proof (intro conjI ballI impI)
  have words: "\<forall>w \<in> set (split description). w \<noteq> [] \<and> (\<forall>c \<in> set w. \<not> isspace c)"
    unfolding split_def using split_from_words [of "[]" _ description] by simp
  have "concat (wrap_description description) = concat (map (\<lambda>w. w @ space) (split description))"
    by (simp add: wrap_description_def wrap_words_greedy concat_greedy_pack)
  then show "split (concat (wrap_description description)) = split description"
    using split_from_join [OF words] by (simp add: split_def)
next
  fix l assume "l \<in> set (wrap_description description)"
  then have "l \<in> set (greedy_pack 80 [] (split description))"
    by (simp add: wrap_description_def wrap_words_greedy)
  then show "length l \<le> 80 \<or> (\<exists>w \<in> set (split description). 79 < length w \<and> l = w @ space)"
    by (rule greedy_pack_bound [OF subset_refl disjI1, rotated]) simp
next
  fix w assume "w \<in> set (split description)" and "79 < length w"
  then show "w @ space \<in> set (wrap_description description)"
    by (simp add: wrap_description_def wrap_words_greedy greedy_pack_long_word)
qed

theorem wrap_description_words_and_width_witness:
  "split (concat (wrap_description (replicate 80 97 @ [32, 98]))) = split (replicate 80 97 @ [32, 98]) \<and>
   replicate 80 97 @ space \<in> set (wrap_description (replicate 80 97 @ [32, 98]))"
proof -
  let ?d = "replicate 80 97 @ [32, 98] :: ustr"
  have words: "split ?d = [replicate 80 97, [98]]"
    using split_from_word [of "replicate 80 97" "[]" "[32, 98]"]
    by (simp add: split_def isspace_def)
  note t = wrap_description_words_and_width [of ?d]
  from t have "split (concat (wrap_description ?d)) = split ?d"
    by (rule conjunct1)
  moreover from t have
    "\<forall>w \<in> set (split ?d). 79 < length w \<longrightarrow> w @ space \<in> set (wrap_description ?d)"
    by (rule conjunct2 [THEN conjunct2])
  then have "replicate 80 97 @ space \<in> set (wrap_description ?d)"
    by (simp add: words)
  ultimately show ?thesis
    by (rule conjI)
qed

section \<open>Loading, rendering and reporting\<close>

lemmas example_defs =
  example_frame_def example_lib_def example_world_def example_input_def failing_lib_def
  example_table_def

lemmas script_defs =
  process_uploaded_file_def try_body_def load_table_def read_uploaded_file_def
  resolve_date_index_def set_datetime_index_def column_names_def head_def endswith_def
  selected_drugs_of_def generate_def render_def create_pdf_report_def create_word_report_def
  get_download_link_def wrap_description_def wrap_words_def split_def Let_def

lemma emit_simps [simp]:
  "trace (emit ev w) = trace w @ [ev]"
  "files (emit ev w) = files w"
  "next_tmp (emit ev w) = next_tmp w"
  by (simp_all add: emit_def)


lemma read_uploaded_file_world:
  assumes "read_uploaded_file env f w = (r, w1)"
  shows "\<exists>c. (c = Read_csv \<or> c = Read_excel) \<and> w1 = emit (Call c) w"
  using assms by (auto simp: read_uploaded_file_def split: if_splits)

lemma resolve_date_index_world:
  assumes "resolve_date_index env df w = (r, w1)"
  shows "w1 = w \<or> w1 = emit (St_warning
           ''No explicit date column found. Assuming first column is for dates.'') w"
  using assms
  by (auto simp: resolve_date_index_def Let_def
      split: if_splits option.splits sum.splits list.splits)

lemma load_table_world:
  assumes "load_table env f w = (r, w1)"
  shows "\<exists>evs. trace w1 = trace w @ evs \<and> (\<forall>ev \<in> set evs. is_loading ev) \<and>
           files w1 = files w \<and> next_tmp w1 = next_tmp w"
proof (cases "read_uploaded_file env f w")
  case (Pair r0 w0)
  from read_uploaded_file_world [OF Pair] obtain c
    where c: "c = Read_csv \<or> c = Read_excel" and w0: "w0 = emit (Call c) w"
    by blast
  show ?thesis
  proof (cases r0)
    case (Inl e)
    with Pair assms have "w1 = w0" by (simp add: load_table_def)
    with w0 c show ?thesis by (auto simp: is_loading_def)
  next
    case (Inr df)
    let ?w = "emit (St_dataframe (head df)) (emit (St_subheader ''Data Preview'') w0)"
    from Inr Pair assms have "resolve_date_index env df ?w = (r, w1)"
      by (simp add: load_table_def)
    from resolve_date_index_world [OF this] w0 c show ?thesis
      by (auto simp: is_loading_def)
  qed
qed

lemma create_pdf_report_trace:
  "trace (snd (create_pdf_report env fig description w)) = trace w"
  by (simp add: create_pdf_report_def Let_def split: sum.splits option.splits)

lemma create_word_report_trace:
  "trace (snd (create_word_report env fig description w)) = trace w"
  by (simp add: create_word_report_def Let_def split: sum.splits option.splits)

lemma render_world:
  assumes "render env chart df sel w = (r, w1)"
  shows "\<exists>c. w1 = emit (Call c) w \<and> c \<noteq> Read_csv \<and> c \<noteq> Read_excel \<and>
           c \<noteq> Create_pdf_report \<and> c \<noteq> Create_word_report"
  using assms by (cases chart) (auto simp: render_def)

lemma calls_of_append: "calls_of (xs @ ys) = calls_of xs @ calls_of ys"
  by (induction xs rule: calls_of.induct) simp_all

lemma load_table_calls:
  assumes "load_table env f w = (r, w1)"
  shows "\<exists>evs c. trace w1 = trace w @ evs \<and> (\<forall>ev \<in> set evs. is_loading ev) \<and>
           calls_of evs = [c] \<and> (c = Read_csv \<or> c = Read_excel)"
proof (cases "read_uploaded_file env f w")
  case (Pair r0 w0)
  from read_uploaded_file_world [OF Pair] obtain c
    where c: "c = Read_csv \<or> c = Read_excel" and w0: "w0 = emit (Call c) w"
    by blast
  show ?thesis
  proof (cases r0)
    case (Inl e)
    with Pair assms have "w1 = w0" by (simp add: load_table_def)
    with w0 c show ?thesis
      by (intro exI [of _ "[Call c]"] exI [of _ c]) (auto simp: is_loading_def)
  next
    case (Inr df)
    let ?w = "emit (St_dataframe (head df)) (emit (St_subheader ''Data Preview'') w0)"
    from Inr Pair assms have "resolve_date_index env df ?w = (r, w1)"
      by (simp add: load_table_def)
    from resolve_date_index_world [OF this]
    consider "w1 = ?w"
      | "w1 = emit (St_warning
           ''No explicit date column found. Assuming first column is for dates.'') ?w"
      by blast
    then show ?thesis
    proof cases
      case 1
      with w0 c show ?thesis
        by (intro exI [of _ "[Call c, St_subheader ''Data Preview'', St_dataframe (head df)]"]
            exI [of _ c]) (auto simp: is_loading_def)
    next
      case 2
      with w0 c show ?thesis
        by (intro exI [of _ "[Call c, St_subheader ''Data Preview'', St_dataframe (head df),
              St_warning ''No explicit date column found. Assuming first column is for dates.'']"]
            exI [of _ c]) (auto simp: is_loading_def)
    qed
  qed
qed

lemma generate_raises:
  assumes "generate env inp df sel w = (Inl e, w1)"
  shows "\<exists>evs. trace w1 = trace w @ evs \<and>
           (\<forall>ev \<in> set evs. \<not> is_link ev \<and> \<not> is_validation_error ev) \<and>
           distinct (calls_of evs) \<and>
           Read_csv \<notin> set (calls_of evs) \<and> Read_excel \<notin> set (calls_of evs)"
proof (cases "sel = []")
  case True
  with assms show ?thesis by (simp add: generate_def)
next
  case False
  let ?w0 = "emit (St_subheader ''3. Generated Visualization'') w"
  obtain r0 w2 where rend: "render env (selectbox inp) df sel ?w0 = (r0, w2)"
    by (cases "render env (selectbox inp) df sel ?w0")
  from render_world [OF rend] obtain c
    where w2: "w2 = emit (Call c) ?w0"
      and c: "c \<noteq> Read_csv" "c \<noteq> Read_excel" "c \<noteq> Create_pdf_report" "c \<noteq> Create_word_report"
    by blast
  show ?thesis
  proof (cases r0)
    case (Inl e0)
    with False rend assms have "w1 = w2" by (simp add: generate_def)
    with w2 c show ?thesis by simp
  next
    case (Inr fig)
    let ?w3 = "emit (Call Create_pdf_report)
                 (emit (St_header ''4. Download Report'') (emit (St_pyplot fig) w2))"
    obtain r4 w4 where pdf: "create_pdf_report env fig (graph_description inp) ?w3 = (r4, w4)"
      by (cases "create_pdf_report env fig (graph_description inp) ?w3")
    have t4: "trace w4 = trace ?w3"
      using create_pdf_report_trace [of env fig "graph_description inp" ?w3] pdf by simp
    show ?thesis
    proof (cases r4)
      case (Inl e4)
      with False rend Inr pdf assms have "w1 = w4" by (simp add: generate_def)
      with t4 w2 c show ?thesis by simp
    next
      case pdf_ok: (Inr pdf_buffer)
      let ?w5 = "emit (Call Create_word_report) w4"
      obtain r6 w6 where word: "create_word_report env fig (graph_description inp) ?w5 = (r6, w6)"
        by (cases "create_word_report env fig (graph_description inp) ?w5")
      have t6: "trace w6 = trace ?w5"
        using create_word_report_trace [of env fig "graph_description inp" ?w5] word by simp
      show ?thesis
      proof (cases r6)
        case (Inl e6)
        with False rend Inr pdf pdf_ok word assms have "w1 = w6" by (simp add: generate_def)
        with t6 t4 w2 c show ?thesis by simp
      next
        case (Inr docx_buffer)
        with False rend \<open>r0 = Inr fig\<close> pdf pdf_ok word assms show ?thesis
          by (simp add: generate_def)
      qed
    qed
  qed
qed

lemma try_body_raises:
  assumes "try_body env inp f w = (Inl e, w1)"
  shows "\<exists>evs. trace w1 = trace w @ evs \<and>
           (\<forall>ev \<in> set evs. \<not> is_link ev \<and> \<not> is_validation_error ev) \<and>
           distinct (calls_of evs)"
proof -
  obtain r0 w0 where load: "load_table env f w = (r0, w0)"
    by (cases "load_table env f w")
  from load_table_calls [OF load] obtain evs0 c
    where t0: "trace w0 = trace w @ evs0" and q0: "\<forall>ev \<in> set evs0. is_loading ev"
      and c0: "calls_of evs0 = [c]" and c: "c = Read_csv \<or> c = Read_excel"
    by blast
  show ?thesis
  proof (cases r0)
    case (Inl e0)
    with load assms have "w1 = w0" by (simp add: try_body_def)
    with t0 q0 c0 show ?thesis by (auto simp: is_loading_def)
  next
    case (Inr p)
    obtain df cats where p: "p = (df, cats)" by (cases p)
    let ?w2 = "emit (St_header ''2. Create Visualization'') w0"
    from Inr p load assms have pressed: "button inp"
      and gen: "generate env inp df (selected_drugs_of inp cats) ?w2 = (Inl e, w1)"
      by (auto simp: try_body_def Let_def split: if_splits)
    from generate_raises [OF gen] obtain evs
      where t: "trace w1 = trace ?w2 @ evs"
        and q: "\<forall>ev \<in> set evs. \<not> is_link ev \<and> \<not> is_validation_error ev"
        and d: "distinct (calls_of evs)"
        and n: "Read_csv \<notin> set (calls_of evs)" "Read_excel \<notin> set (calls_of evs)"
      by blast
    from t t0 have "trace w1 = trace w @ (evs0 @ St_header ''2. Create Visualization'' # evs)"
      by simp
    moreover from q q0
    have "\<forall>ev \<in> set (evs0 @ St_header ''2. Create Visualization'' # evs).
            \<not> is_link ev \<and> \<not> is_validation_error ev"
      by (auto simp: is_loading_def)
    moreover from c0 c d n
    have "distinct (calls_of (evs0 @ St_header ''2. Create Visualization'' # evs))"
      by (auto simp: calls_of_append)
    ultimately show ?thesis by blast
  qed
qed



text \<open>
  Claim C3: on a parsed file whose column names are unique, as those of a table are, when
  the date column is resolved and parsed without an exception, the column taken is \<^verbatim>\<open>datum\<close> if the file has it, else \<^verbatim>\<open>date\<close> if the file has it, else the
  first column, and the warning is emitted in exactly this last case; the parsed column is
  the index of the table; the categories are the other columns, in the order of the
  file, and they are the columns of the table.
\<close>

theorem resolve_date_index_policy:
  assumes "resolve_date_index env df w = (Inr (table, drug_categories), w1)"
    and "distinct (column_names df)"
  shows "\<exists>dc cells dates.
           dc = (if ''datum'' \<in> set (column_names df) then ''datum''
                 else if ''date'' \<in> set (column_names df) then ''date''
                 else hd (column_names df)) \<and>
           dc \<in> set (column_names df) \<and>
           map_of (columns df) dc = Some cells \<and>
           to_datetime env cells = Inr dates \<and>
           index table = DatetimeIndex dc dates \<and>
           column_names table = drug_categories \<and>
           drug_categories = filter (\<lambda>c. c \<noteq> dc) (column_names df) \<and>
           trace w1 = trace w @
             (if ''datum'' \<in> set (column_names df) \<or> ''date'' \<in> set (column_names df) then []
              else [St_warning
                ''No explicit date column found. Assuming first column is for dates.''])"
  using assms(1)
  by (auto simp: resolve_date_index_def set_datetime_index_def column_names_def Let_def filter_map comp_def
      split: if_splits option.splits sum.splits list.splits dest: map_of_SomeD)

theorem resolve_date_index_policy_witness:
  "distinct (column_names example_frame) \<and>
   fst (resolve_date_index example_lib example_frame example_world) =
     Inr (example_table, [''Year'', ''DrugA'']) \<and>
   [''Year'', ''DrugA''] = filter (\<lambda>c. c \<noteq> ''date'') (column_names example_frame)"
proof -
  have run: "resolve_date_index example_lib example_frame example_world =
      (Inr (example_table, [''Year'', ''DrugA'']), example_world)"
    by (simp add: example_defs script_defs)
  have names: "distinct (column_names example_frame)"
    by (simp add: example_defs column_names_def)
  from resolve_date_index_policy [OF run names]
  have "[''Year'', ''DrugA''] = filter (\<lambda>c. c \<noteq> ''date'') (column_names example_frame)"
    by (simp add: example_defs column_names_def)
  with run names show ?thesis by simp
qed

text \<open>
  Claim C1: with a file uploaded and loaded, the button pressed and the selection empty,
  the run ends with the error message of the validation, right after the header of the
  section; before it there are only events of loading (no call of a renderer, of
  \<^verbatim>\<open>create_pdf_report\<close> or of \<^verbatim>\<open>create_word_report\<close>, no download link); and no
  temporary file is created, so no report was built.
\<close>

theorem empty_selection_halts:
  assumes "uploaded inp = Some f" and "button inp"
    and "load_table env f w = (Inr (df, drug_categories), w1)"
    and "selected_drugs_of inp drug_categories = []"
  shows "\<exists>evs. trace (process_uploaded_file env inp w) =
           trace w @ evs @ [St_header ''2. Create Visualization'',
                            St_error ''Please select at least one drug category.''] \<and>
         (\<forall>ev \<in> set evs. is_loading ev) \<and>
         files (process_uploaded_file env inp w) = files w \<and>
         next_tmp (process_uploaded_file env inp w) = next_tmp w"
proof -
  from load_table_world [OF assms(3)] obtain evs
    where "trace w1 = trace w @ evs" and "\<forall>ev \<in> set evs. is_loading ev"
      and "files w1 = files w" and "next_tmp w1 = next_tmp w"
    by blast
  moreover have "process_uploaded_file env inp w =
      emit (St_error ''Please select at least one drug category.'')
        (emit (St_header ''2. Create Visualization'') w1)"
    using assms by (simp add: process_uploaded_file_def try_body_def generate_def)
  ultimately show ?thesis by simp
qed

theorem empty_selection_halts_witness:
  "selected_drugs_of (example_input\<lparr>multiselect := Some []\<rparr>) [''Year'', ''DrugA''] = [] \<and>
   last (trace (process_uploaded_file example_lib (example_input\<lparr>multiselect := Some []\<rparr>)
     example_world)) = St_error ''Please select at least one drug category.'' \<and>
   files (process_uploaded_file example_lib (example_input\<lparr>multiselect := Some []\<rparr>)
     example_world) = files example_world \<and>
   next_tmp (process_uploaded_file example_lib (example_input\<lparr>multiselect := Some []\<rparr>)
     example_world) = 0"
proof -
  let ?inp = "example_input\<lparr>multiselect := Some []\<rparr>"
  let ?f = "\<lparr>file_name = ''sales.csv'', file_type = ''text/csv'', file_bytes = []\<rparr>"
  let ?w1 = "emit (St_dataframe (head example_frame))
               (emit (St_subheader ''Data Preview'') (emit (Call Read_csv) example_world))"
  have up: "uploaded ?inp = Some ?f" and pressed: "button ?inp"
    by (simp_all add: example_defs)
  have load: "load_table example_lib ?f example_world =
      (Inr (example_table, [''Year'', ''DrugA'']), ?w1)"
    by (simp add: example_defs script_defs)
  have none: "selected_drugs_of ?inp [''Year'', ''DrugA''] = []"
    by (simp add: example_defs selected_drugs_of_def)
  from empty_selection_halts [OF up pressed load none] obtain evs
    where "trace (process_uploaded_file example_lib ?inp example_world) =
        trace example_world @ evs @ [St_header ''2. Create Visualization'',
          St_error ''Please select at least one drug category.'']"
      and "files (process_uploaded_file example_lib ?inp example_world) = files example_world"
      and "next_tmp (process_uploaded_file example_lib ?inp example_world) = next_tmp example_world"
    by blast
  with none show ?thesis by (simp add: example_world_def)
qed

subsection \<open>An exception reaches the handler\<close>

lemma same_result: "fst p = fst q \<Longrightarrow> fst q = r \<Longrightarrow> \<exists>b. p = (r, b)"
  by (cases p) simp

lemma fst_read_uploaded_file:
  "fst (read_uploaded_file env f w) = fst (read_uploaded_file env f wa)"
  by (simp add: read_uploaded_file_def)

lemma read_uploaded_file_any:
  "fst (read_uploaded_file env f wa) = r \<Longrightarrow> \<exists>w1. read_uploaded_file env f w = (r, w1)"
  by (rule same_result [OF fst_read_uploaded_file])

lemma fst_resolve_date_index:
  "fst (resolve_date_index env df w) = fst (resolve_date_index env df wa)"
  by (simp add: resolve_date_index_def Let_def split: option.splits sum.splits list.splits)

lemma fst_load_table: "fst (load_table env f w) = fst (load_table env f wa)"
proof -
  obtain r w1 where a: "read_uploaded_file env f w = (r, w1)"
    by (cases "read_uploaded_file env f w")
  then have "fst (read_uploaded_file env f w) = r"
    by simp
  from read_uploaded_file_any [OF this, of wa]
  obtain w2 where b: "read_uploaded_file env f wa = (r, w2)" ..
  show ?thesis
  proof (cases r)
    case (Inl e)
    with a b show ?thesis by (simp add: load_table_def)
  next
    case (Inr df)
    with a b show ?thesis
      by (simp add: load_table_def)
        (rule fst_resolve_date_index)
  qed
qed

lemma load_table_any:
  "fst (load_table env f wa) = r \<Longrightarrow> \<exists>w1. load_table env f w = (r, w1)"
  by (rule same_result [OF fst_load_table])

lemma fst_render: "fst (render env chart df sel w) = fst (render env chart df sel wa)"
  by (cases chart) (simp_all add: render_def)

lemma render_any:
  "fst (render env chart df sel wa) = r \<Longrightarrow> \<exists>w1. render env chart df sel w = (r, w1)"
  by (rule same_result [OF fst_render])

lemma fst_create_pdf_report:
  "fst (create_pdf_report env fig description w) = fst (create_pdf_report env fig description wa)"
  by (simp add: create_pdf_report_def Let_def split: sum.splits option.splits)

lemma create_pdf_report_any:
  "fst (create_pdf_report env fig description wa) = r \<Longrightarrow>
   \<exists>w1. create_pdf_report env fig description w = (r, w1)"
  by (rule same_result [OF fst_create_pdf_report])

lemma fst_create_word_report:
  "fst (create_word_report env fig description w) =
   fst (create_word_report env fig description wa)"
  by (simp add: create_word_report_def Let_def split: sum.splits option.splits)

lemma create_word_report_any:
  "fst (create_word_report env fig description wa) = r \<Longrightarrow>
   \<exists>w1. create_word_report env fig description w = (r, w1)"
  by (rule same_result [OF fst_create_word_report])

lemma raises_reaches_handler:
  assumes "raises env inp f e"
  shows "\<exists>w1. try_body env inp f w = (Inl e, w1)"
  using assms
proof cases
  case loading
  from read_uploaded_file_any [OF loading, of w] obtain w1
    where "read_uploaded_file env f w = (Inl e, w1)" ..
  then show ?thesis by (simp add: try_body_def load_table_def)
next
  case (parsing w0 df0 wa)
  from read_uploaded_file_any [OF parsing(1), of w] obtain w1
    where "read_uploaded_file env f w = (Inr df0, w1)" ..
  moreover obtain r w2
    where res: "resolve_date_index env df0
        (emit (St_dataframe (head df0)) (emit (St_subheader ''Data Preview'') w1)) = (r, w2)"
    by (cases "resolve_date_index env df0
        (emit (St_dataframe (head df0)) (emit (St_subheader ''Data Preview'') w1))")
  moreover from res parsing(2) have "r = Inl e"
    using fst_resolve_date_index [of env df0 wa
        "emit (St_dataframe (head df0)) (emit (St_subheader ''Data Preview'') w1)"]
    by simp
  ultimately show ?thesis by (simp add: try_body_def load_table_def)
next
  case (rendering w0 df cats wa)
  from load_table_any [OF rendering(1), of w] obtain w1
    where load: "load_table env f w = (Inr (df, cats), w1)" ..
  from render_any [OF rendering(4)] obtain w2
    where "render env (selectbox inp) df (selected_drugs_of inp cats)
        (emit (St_subheader ''3. Generated Visualization'')
          (emit (St_header ''2. Create Visualization'') w1)) = (Inl e, w2)" ..
  with load rendering(2,3) show ?thesis
    by (simp add: try_body_def generate_def)
next
  case (pdf_report w0 df cats wa fig wb)
  from load_table_any [OF pdf_report(1), of w] obtain w1
    where load: "load_table env f w = (Inr (df, cats), w1)" ..
  from render_any [OF pdf_report(4)] obtain w2
    where rend: "render env (selectbox inp) df (selected_drugs_of inp cats)
        (emit (St_subheader ''3. Generated Visualization'')
          (emit (St_header ''2. Create Visualization'') w1)) = (Inr fig, w2)" ..
  from create_pdf_report_any [OF pdf_report(5)] obtain w3
    where "create_pdf_report env fig (graph_description inp)
        (emit (Call Create_pdf_report)
          (emit (St_header ''4. Download Report'') (emit (St_pyplot fig) w2))) = (Inl e, w3)" ..
  with load rend pdf_report(2,3) show ?thesis
    by (simp add: try_body_def generate_def)
next
  case (word_report w0 df cats wa fig wb pdf_buffer wc)
  from load_table_any [OF word_report(1), of w] obtain w1
    where load: "load_table env f w = (Inr (df, cats), w1)" ..
  from render_any [OF word_report(4)] obtain w2
    where rend: "render env (selectbox inp) df (selected_drugs_of inp cats)
        (emit (St_subheader ''3. Generated Visualization'')
          (emit (St_header ''2. Create Visualization'') w1)) = (Inr fig, w2)" ..
  from create_pdf_report_any [OF word_report(5)] obtain w3
    where pdf: "create_pdf_report env fig (graph_description inp)
        (emit (Call Create_pdf_report)
          (emit (St_header ''4. Download Report'') (emit (St_pyplot fig) w2))) =
        (Inr pdf_buffer, w3)" ..
  from create_word_report_any [OF word_report(6)] obtain w4
    where "create_word_report env fig (graph_description inp)
        (emit (Call Create_word_report) w3) = (Inl e, w4)" ..
  with load rend pdf word_report(2,3) show ?thesis
    by (simp add: try_body_def generate_def)
qed

lemma trace_emit_all [simp]: "trace (emit_all evs w) = trace w @ evs"
  by (simp add: emit_all_def)

text \<open>
  Claim C6, as the code has it: when the parser, the resolution of the date column, the
  renderer or one of the two report functions raises an exception with text \<^verbatim>\<open>e\<close>, the
  handler of the script shows \<^verbatim>\<open>Error processing file: e\<close>, and processing halts
  there: after the message the run prints only the footer of the page, which every run
  prints. No function was called twice, and no download link is on the page, nor the
  message of the empty selection, from which the message of the handler always differs.
  What was put on the page before the exception stays there.
\<close>

theorem exception_caught_at_top:
  assumes "uploaded inp = Some f" and "raises env inp f e"
  shows "\<exists>evs. trace (main_script env inp w) =
           trace w @ page_top @ evs @ [St_error (''Error processing file: '' @ e)] @ page_footer \<and>
         (\<forall>ev \<in> set evs. \<not> is_link ev \<and> \<not> is_validation_error ev) \<and>
         distinct (calls_of evs) \<and>
         \<not> is_validation_error (St_error (''Error processing file: '' @ e) :: (cell, 'fig) event)"
proof -
  from raises_reaches_handler [OF assms(2)] obtain w1
    where raised: "try_body env inp f (emit_all page_top w) = (Inl e, w1)" ..
  from try_body_raises [OF raised] obtain evs
    where "trace w1 = trace (emit_all page_top w) @ evs"
      and "\<forall>ev \<in> set evs. \<not> is_link ev \<and> \<not> is_validation_error ev"
      and "distinct (calls_of evs)"
    by blast
  moreover have "main_script env inp w =
      emit_all page_footer (emit (St_error (''Error processing file: '' @ e)) w1)"
    using assms(1) raised by (simp add: main_script_def process_uploaded_file_def)
  ultimately show ?thesis by simp
qed

theorem exception_caught_at_top_witness:
  "raises
     (example_lib\<lparr>create_time_series_plot :=
        (\<lambda>df sel. Inl ''x and y must have same first dimension'')\<rparr>)
     example_input \<lparr>file_name = ''sales.csv'', file_type = ''text/csv'', file_bytes = []\<rparr>
     ''x and y must have same first dimension'' \<and>
   (\<exists>evs. trace (main_script
        (example_lib\<lparr>create_time_series_plot :=
           (\<lambda>df sel. Inl ''x and y must have same first dimension'')\<rparr>)
        example_input example_world) =
      page_top @ evs @
        [St_error ''Error processing file: x and y must have same first dimension''] @
        page_footer \<and>
      distinct (calls_of evs))"
proof -
  let ?lib = "example_lib\<lparr>create_time_series_plot :=
      (\<lambda>df sel. Inl ''x and y must have same first dimension'')\<rparr>"
  let ?f = "\<lparr>file_name = ''sales.csv'', file_type = ''text/csv'', file_bytes = []\<rparr>"
  have up: "uploaded example_input = Some ?f"
    by (simp add: example_defs)
  have raised: "raises ?lib example_input ?f ''x and y must have same first dimension''"
    by (rule raises.rendering [where w = example_world and wa = example_world
          and df = example_table and drug_categories = "[''Year'', ''DrugA'']"])
      (simp_all add: example_defs script_defs)
  from exception_caught_at_top [OF up raised, of example_world] obtain evs
    where "trace (main_script ?lib example_input example_world) =
        trace example_world @ page_top @ evs @
          [St_error (''Error processing file: '' @ ''x and y must have same first dimension'')] @
          page_footer"
      and "distinct (calls_of evs)"
    by blast
  then have "\<exists>evs. trace (main_script ?lib example_input example_world) =
      page_top @ evs @
        [St_error ''Error processing file: x and y must have same first dimension''] @
        page_footer \<and>
      distinct (calls_of evs)"
    by (intro exI [of _ evs]) (simp add: example_world_def)
  with raised show ?thesis by (rule conjI)
qed

text \<open>
  When embedding the image into the PDF fails, the data preview, the headers and the
  chart are on the page before the error message: the output of that run is partial.
\<close>

theorem chart_shown_before_error:
  "trace (process_uploaded_file failing_lib example_input example_world) =
     [Call Read_csv,
      St_subheader ''Data Preview'',
      St_dataframe example_frame,
      St_header ''2. Create Visualization'',
      St_subheader ''3. Generated Visualization'',
      Call Create_time_series_plot,
      St_pyplot 1,
      St_header ''4. Download Report'',
      Call Create_pdf_report,
      St_error ''Error processing file: cannot identify image file'']"
  by (simp add: example_defs script_defs emit_def)

subsection \<open>The temporary file\<close>

lemma create_pdf_report_removes_on_success:
  assumes "create_pdf_report env fig description w = (Inr b, w1)"
  shows "files w1 = (files w)(next_tmp w := None)"
  using assms
  by (auto simp: create_pdf_report_def Let_def split: sum.splits option.splits)

lemma create_pdf_report_leaks_on_exception:
  assumes "create_pdf_report env fig description w = (Inl e, w1)"
  shows "files w1 (next_tmp w) \<noteq> None"
  using assms
  by (auto simp: create_pdf_report_def Let_def split: sum.splits option.splits)

lemma create_word_report_removes_on_success:
  assumes "create_word_report env fig description w = (Inr b, w1)"
  shows "files w1 = (files w)(next_tmp w := None)"
  using assms
  by (auto simp: create_word_report_def Let_def split: sum.splits option.splits)

lemma create_word_report_refused_description:
  assumes "add_paragraph env description = Some e"
  shows "create_word_report env fig description w = (Inl e, w)"
  using assms by (simp add: create_word_report_def)

lemma create_word_report_leaks_on_exception:
  assumes "create_word_report env fig description w = (Inl e, w1)"
    and "add_paragraph env description = None"
  shows "files w1 (next_tmp w) \<noteq> None"
  using assms
  by (auto simp: create_word_report_def Let_def split: sum.splits option.splits)

text \<open>
  Claim C4, at an input where the code departs from it: when \<^verbatim>\<open>c.drawImage\<close>,
  respectively \<^verbatim>\<open>doc.add_picture\<close>, raises, \<^verbatim>\<open>create_pdf_report\<close> and
  \<^verbatim>\<open>create_word_report\<close> end with that exception and the temporary file, holding the
  image, is still on disk.
\<close>

theorem temp_file_left_after_exception:
  "fst (create_pdf_report failing_lib 1 [] example_world) = Inl ''cannot identify image file'' \<and>
   files (snd (create_pdf_report failing_lib 1 [] example_world)) 0 = Some [137, 80, 78, 71, 1] \<and>
   fst (create_word_report failing_lib 1 [] example_world) = Inl ''cannot identify image file'' \<and>
   files (snd (create_word_report failing_lib 1 [] example_world)) 0 = Some [137, 80, 78, 71, 1]"
  by (simp add: example_defs create_pdf_report_def create_word_report_def Let_def)

subsection \<open>The yearly sums\<close>

lemma map_of_set_column:
  "map_of (set_column k v cols) k' = (if k' = k then Some v else map_of cols k')"
  by (induction cols) auto

lemma group_sum_years:
  "(case group_sum (map (map_option year) dates) vals acc y of None \<Rightarrow> 0 | Some s \<Rightarrow> s) =
   (case acc y of None \<Rightarrow> 0 | Some s \<Rightarrow> s) + sum_of_year y dates vals"
proof (induction dates arbitrary: vals acc)
  case Nil
  then show ?case by (simp add: sum_of_year_def)
next
  case (Cons d ds)
  show ?case
  proof (cases vals)
    case Nil
    then show ?thesis by (simp add: sum_of_year_def)
  next
    case (Cons v vs)
    have tail: "sum_of_year y (d # ds) (v # vs) =
        (if map_option year d = Some y then (case v of None \<Rightarrow> 0 | Some x \<Rightarrow> x) else 0) +
        sum_of_year y ds vs"
      by (auto simp: sum_of_year_def)
    show ?thesis
      unfolding Cons tail using Cons.IH [of vs]
      by (cases d) (simp_all split: option.splits)
  qed
qed

text \<open>
  For a selected column that is not named \<^verbatim>\<open>Year\<close>, each bar is the sum of the column
  over the rows of its year. The lemma is about columns whose absolute values add up to
  at most \<open>2 ^ 53\<close>: there the int64 sum of pandas does not wrap around, its float64 sum
  of whole numbers is not rounded, and both are the exact sum of \<^const>\<open>yearly_sales\<close>.
\<close>

lemma yearly_sales_sums:
  assumes "yearly_sales df selected_drugs = Inr sums"
    and "index df = DatetimeIndex index_name dates"
    and "map_of (columns df) drug = Some vals"
    and "drug \<noteq> ''Year''"
    and "sum_list (map (\<lambda>v. case v of None \<Rightarrow> 0 | Some x \<Rightarrow> \<bar>x\<bar>) vals) \<le> 2 ^ 53"
  shows "map fst sums = group_keys (map (map_option year) dates)"
    and "(y, row) \<in> set sums \<Longrightarrow> drug \<in> set selected_drugs \<Longrightarrow>
         (drug, sum_of_year y dates vals) \<in> set row"
proof -
  let ?years = "map (map_option year) dates"
  let ?cols = "set_column ''Year'' ?years (columns df)"
  let ?row = "\<lambda>y. map (\<lambda>drug. (drug,
      case map_of ?cols drug of None \<Rightarrow> 0
      | Some vals \<Rightarrow> (case group_sum ?years vals Map.empty y of None \<Rightarrow> 0 | Some s \<Rightarrow> s)))
      selected_drugs"
  from assms(1,2) have sums: "sums = map (\<lambda>y. (y, ?row y)) (group_keys ?years)"
    by (simp add: yearly_sales_def Let_def split: if_splits)
  then show "map fst sums = group_keys ?years"
    by (simp add: comp_def)
  have cell: "(case map_of ?cols drug of None \<Rightarrow> 0
      | Some vals \<Rightarrow> (case group_sum ?years vals Map.empty y of None \<Rightarrow> 0 | Some s \<Rightarrow> s)) =
      sum_of_year y dates vals" for y
    using assms(3,4) group_sum_years [of dates vals Map.empty y]
    by (simp add: map_of_set_column)
  assume "(y, row) \<in> set sums" and sel: "drug \<in> set selected_drugs"
  with sums have "row = ?row y" by auto
  with sel cell [of y] show "(drug, sum_of_year y dates vals) \<in> set row"
    by (auto simp: image_iff intro!: bexI [of _ drug])
qed

text \<open>
  Claim C2, at an input where the code departs from it: on a table with a column named
  \<^verbatim>\<open>Year\<close> that is selected, the bar of that column for 2020 is 2020, the sum of the
  years of the index, while the sum of the column over the rows of 2020 is 5.
\<close>

theorem year_column_overwritten:
  "yearly_sales example_table [''Year'', ''DrugA''] =
     Inr [(2020, [(''Year'', 2020), (''DrugA'', 10)]), (2021, [(''Year'', 2021), (''DrugA'', 20)])] \<and>
   sum_of_year 2020 [Some (Timestamp 2020 1 15), Some (Timestamp 2021 1 15)] [Some 5, Some 6] = 5"
  by (simp add: example_defs yearly_sales_def group_keys_def sum_of_year_def Let_def)

end
